theory Spec2Isabelle
  imports Main "HOL-Library.Word"
begin

unbundle bit_operations_syntax

section \<open>Values, errors and panics\<close>

text \<open>
  A \<open>json.RawMessage\<close> is a byte slice; a Go string is a byte sequence as well.  Both are
  modelled as \<open>string\<close> (a list of 8-bit characters).  The configuration document is the Go
  map \<open>map[string]*json.RawMessage\<close>: a key is absent (\<open>None\<close>), or bound to a pointer
  that is nil (\<open>Some None\<close>) or points to raw bytes (\<open>Some (Some raw)\<close>).
\<close>

type_synonym RawMessage = string

type_synonym document = "string \<rightharpoonup> RawMessage option"

text \<open>
  The error values that occur: \<open>fmt.Errorf\<close> with its formatted message, the two error kinds
  of \<open>encoding/json\<close> (\<open>*json.SyntaxError\<close> with its byte offset, \<open>*json.UnmarshalTypeError\<close>
  with the description of the offending JSON value), \<open>*time.ParseError\<close>, the \<open>*os.PathError\<close>
  of \<open>ioutil.ReadFile\<close>, the system call error of \<open>fsnotify.NewWatcher\<close>, and the two
  package-level error variables of \<open>src/json/json.go\<close>.
\<close>

datatype error =
    Errorf string
  | SyntaxError nat
  | UnmarshalTypeError string
  | ParseError string
  | PathError string
  | SyscallError string
  | ErrAlreadyBeingWatched
  | ErrNotBeingWatched

datatype panic = NilPointerDereference | CloseOfNilChannel | PanicError error

datatype 'a outcome = Returns 'a | Panics panic

section \<open>The configuration handle of \<open>src/json/json.go\<close>\<close>

text \<open>
  The struct \<open>Config\<close> (lines 26-33).  Of the \<open>sync.RWMutex\<close> the model keeps how many
  readers hold it and whether a writer does.  \<open>isBeingWatched\<close> is an \<open>int32\<close> that the code
  only ever compares with and sets to 0 and 1.  The watcher and the channel are pointers,
  \<open>None\<close> when nil.
\<close>

record RWMutex =
  readers :: nat
  writer :: bool

record Config =
  mut :: RWMutex
  c :: document
  filePath :: string
  isBeingWatched :: "32 word"
  watcher :: "nat option"
  watchC :: "nat option"

text \<open>
  Watchers and channels are heap objects; the model names each by a number and keeps, outside
  the handle, which of them are open and which listener goroutines run (each listener under
  the number of the watcher whose channels it reads).
\<close>

record world =
  fresh :: nat
  open_watchers :: "nat list"
  open_chans :: "nat list"
  listeners :: "nat list"

definition zero_Config :: Config where
  "zero_Config =
     \<lparr>mut = \<lparr>readers = 0, writer = False\<rparr>, c = Map.empty, filePath = [],
      isBeingWatched = 0, watcher = None, watchC = None\<rparr>"

section \<open>External collaborators\<close>

text \<open>
  \<open>time.Parse\<close> returns a \<open>time.Time\<close>; for the date-only layout of the source it is midnight
  UTC of a calendar day, kept here as the three numbers its methods \<open>Year\<close>, \<open>Month\<close> and
  \<open>Day\<close> return.
\<close>

record Time =
  Year :: int
  Month :: int
  Day :: int

text \<open>
  The functions of the Go standard library that the source calls are parameters of the
  model: \<open>json.Unmarshal\<close> at the three target types the modelled functions use (the map of
  raw messages, \<open>string\<close> and \<open>int\<close>), and \<open>time.Parse\<close> with its layout argument.  On an error
  the Go functions leave a value the callers never read; the model returns the error alone.
\<close>

record lib =
  json_Unmarshal_map :: "string \<Rightarrow> error + document"
  json_Unmarshal_string :: "string \<Rightarrow> error + string"
  json_Unmarshal_int :: "string \<Rightarrow> error + int"
  time_Parse :: "string \<Rightarrow> string \<Rightarrow> error + Time"

section \<open>Methods as sequences of accesses to the shared handle\<close>

text \<open>
  A method of \<open>*Config\<close> touches the handle it shares with the listener goroutine only by
  locking and unlocking \<open>c.mut\<close>, by reading \<open>c.c[key]\<close> and by assigning \<open>c.c\<close>.  A method is
  modelled as the sequence of these accesses, each atomic, ending in what it returns.
  \<open>Index key k\<close> reads \<open>c.c[key]\<close> and continues with \<open>k\<close> of the result: \<open>None\<close> when the key
  is absent (the pointer read is then nil and \<open>ok\<close> is false), \<open>Some p\<close> for the pointer stored.
\<close>

datatype 'a prog =
    Return 'a
  | RLock "'a prog"
  | RUnlock "'a prog"
  | Lock "'a prog"
  | Unlock "'a prog"
  | Index string "RawMessage option option \<Rightarrow> 'a prog"
  | Assign document "'a prog"

text \<open>
  One atomic access of a goroutine; \<open>None\<close> when it cannot proceed now (it has returned, or it
  waits for the lock: a reader while a writer holds it, a writer while anyone holds it).
\<close>

primrec step :: "'a prog \<Rightarrow> Config \<Rightarrow> ('a prog \<times> Config) option" where
  "step (Return a) cfg = None"
| "step (RLock p) cfg =
     (if writer (mut cfg) then None
      else Some (p, cfg\<lparr>mut := (mut cfg)\<lparr>readers := Suc (readers (mut cfg))\<rparr>\<rparr>))"
| "step (RUnlock p) cfg = Some (p, cfg\<lparr>mut := (mut cfg)\<lparr>readers := readers (mut cfg) - 1\<rparr>\<rparr>)"
| "step (Lock p) cfg =
     (if writer (mut cfg) \<or> 0 < readers (mut cfg) then None
      else Some (p, cfg\<lparr>mut := (mut cfg)\<lparr>writer := True\<rparr>\<rparr>))"
| "step (Unlock p) cfg = Some (p, cfg\<lparr>mut := (mut cfg)\<lparr>writer := False\<rparr>\<rparr>)"
| "step (Index key k) cfg = Some (k (c cfg key), cfg)"
| "step (Assign d p) cfg = Some (p, cfg\<lparr>c := d\<rparr>)"

text \<open>A method run to its end with no other goroutine in between; \<open>None\<close> when it waits forever.\<close>

primrec exec :: "'a prog \<Rightarrow> Config \<Rightarrow> ('a \<times> Config) option" where
  "exec (Return a) cfg = Some (a, cfg)"
| "exec (RLock p) cfg =
     (if writer (mut cfg) then None
      else exec p (cfg\<lparr>mut := (mut cfg)\<lparr>readers := Suc (readers (mut cfg))\<rparr>\<rparr>))"
| "exec (RUnlock p) cfg = exec p (cfg\<lparr>mut := (mut cfg)\<lparr>readers := readers (mut cfg) - 1\<rparr>\<rparr>)"
| "exec (Lock p) cfg =
     (if writer (mut cfg) \<or> 0 < readers (mut cfg) then None
      else exec p (cfg\<lparr>mut := (mut cfg)\<lparr>writer := True\<rparr>\<rparr>))"
| "exec (Unlock p) cfg = exec p (cfg\<lparr>mut := (mut cfg)\<lparr>writer := False\<rparr>\<rparr>)"
| "exec (Index key k) cfg = exec (k (c cfg key)) cfg"
| "exec (Assign d p) cfg = exec p (cfg\<lparr>c := d\<rparr>)"

text \<open>
  Two goroutines on one handle under a schedule: \<open>True\<close> lets the first take its next access,
  \<open>False\<close> the second; a goroutine that cannot proceed keeps its place.
\<close>

fun interleave :: "bool list \<Rightarrow> 'a prog \<Rightarrow> 'b prog \<Rightarrow> Config \<Rightarrow> 'a prog \<times> 'b prog \<times> Config" where
  "interleave [] p1 p2 cfg = (p1, p2, cfg)"
| "interleave (True # sched) p1 p2 cfg =
     (case step p1 cfg of
        None \<Rightarrow> interleave sched p1 p2 cfg
      | Some (p1', cfg') \<Rightarrow> interleave sched p1' p2 cfg')"
| "interleave (False # sched) p1 p2 cfg =
     (case step p2 cfg of
        None \<Rightarrow> interleave sched p1 p2 cfg
      | Some (p2', cfg') \<Rightarrow> interleave sched p1 p2' cfg')"

text \<open>What a goroutine has returned, if it has.\<close>

primrec returned :: "'a prog \<Rightarrow> 'a option" where
  "returned (Return a) = Some a"
| "returned (RLock p) = None"
| "returned (RUnlock p) = None"
| "returned (Lock p) = None"
| "returned (Unlock p) = None"
| "returned (Index key k) = None"
| "returned (Assign d p) = None"

text \<open>A call of a method from another one: a panic of the callee passes through the caller.\<close>

primrec call :: "'a outcome prog \<Rightarrow> ('a \<Rightarrow> 'b outcome prog) \<Rightarrow> 'b outcome prog" where
  "call (Return r) k = (case r of Returns a \<Rightarrow> k a | Panics p \<Rightarrow> Return (Panics p))"
| "call (RLock p) k = RLock (call p k)"
| "call (RUnlock p) k = RUnlock (call p k)"
| "call (Lock p) k = Lock (call p k)"
| "call (Unlock p) k = Unlock (call p k)"
| "call (Index key f) k = Index key (\<lambda>v. call (f v) k)"
| "call (Assign d p) k = Assign d (call p k)"

text \<open>\<open>*(c.c[key])\<close>: the pointer read is nil when the key is absent or bound to nil.\<close>

definition deref :: "RawMessage option option \<Rightarrow> RawMessage option" where
  "deref p = (case p of None \<Rightarrow> None | Some None \<Rightarrow> None | Some (Some raw) \<Rightarrow> Some raw)"

section \<open>Parsing and the accessors of \<open>src/json/json.go\<close>\<close>

text \<open>\<open>newConf\<close> (lines 339-347) and \<open>New\<close> (lines 36-38).\<close>

definition newConf :: "lib \<Rightarrow> string \<Rightarrow> error + Config" where
  "newConf L jsonData =
     (case json_Unmarshal_map L jsonData of
        Inl err \<Rightarrow> Inl err
      | Inr m \<Rightarrow> Inr (zero_Config\<lparr>c := m\<rparr>))"

definition New :: "lib \<Rightarrow> string \<Rightarrow> error + Config" where
  "New L jsonStr = newConf L jsonStr"

text \<open>\<open>Load\<close> (lines 42-57); the second argument is what \<open>ioutil.ReadFile(filePath)\<close> returns.\<close>

definition Load :: "lib \<Rightarrow> error + string \<Rightarrow> string \<Rightarrow> error + Config" where
  "Load L readFile path =
     (case readFile of
        Inl err \<Rightarrow> Inl err
      | Inr data \<Rightarrow>
          (case json_Unmarshal_map L data of
             Inl err \<Rightarrow> Inl err
           | Inr m \<Rightarrow> Inr (zero_Config\<lparr>filePath := path, c := m\<rparr>)))"

text \<open>
  \<open>UnmarshalSection\<close> (lines 138-148).  \<open>dest\<close> is any pointer; the first argument is
  \<open>json.Unmarshal\<close> at its type.  The method takes no lock.
\<close>

definition UnmarshalSection :: "(string \<Rightarrow> error + 'a) \<Rightarrow> string \<Rightarrow> (error + 'a) outcome prog" where
  "UnmarshalSection unmarshal key =
     Index key (\<lambda>v. case v of
         None \<Rightarrow> Return (Returns (Inl (Errorf (''section '' @ key @ '' not present in config''))))
       | Some p \<Rightarrow>
           Index key (\<lambda>p. case deref p of
               None \<Rightarrow> Return (Panics NilPointerDereference)
             | Some raw \<Rightarrow>
                 (case unmarshal raw of
                    Inl err \<Rightarrow> Return (Returns (Inl err))
                  | Inr dest \<Rightarrow> Return (Returns (Inr dest)))))"

text \<open>\<open>Section\<close> (lines 152-164).  The method takes no lock.\<close>

definition Section :: "lib \<Rightarrow> string \<Rightarrow> (error + Config) outcome prog" where
  "Section L key =
     Index key (\<lambda>v. case v of
         None \<Rightarrow> Return (Returns (Inl (Errorf (''section '' @ key @ '' not present in config''))))
       | Some p \<Rightarrow>
           Index key (\<lambda>p. case deref p of
               None \<Rightarrow> Return (Panics NilPointerDereference)
             | Some raw \<Rightarrow>
                 (case json_Unmarshal_map L raw of
                    Inl err \<Rightarrow> Return (Returns (Inl err))
                  | Inr m \<Rightarrow> Return (Returns (Inr (zero_Config\<lparr>c := m\<rparr>))))))"

text \<open>\<open>SectionAsJSON\<close> (lines 168-181): one read of the map, the pointer followed after the unlock.\<close>

definition SectionAsJSON :: "string \<Rightarrow> (error + string) outcome prog" where
  "SectionAsJSON key =
     RLock (Index key (\<lambda>v. case v of
         None \<Rightarrow>
           RUnlock (Return (Returns (Inl (Errorf (''section '' @ key @ '' not present in config'')))))
       | Some sectionBytes \<Rightarrow>
           RUnlock (case sectionBytes of
               None \<Rightarrow> Return (Panics NilPointerDereference)
             | Some raw \<Rightarrow> Return (Returns (Inr raw)))))"

text \<open>
  \<open>getString\<close> (lines 371-391) and \<open>getInt\<close> (lines 393-413).  A panic at \<open>*(c.c[key])\<close> leaves
  the read lock held.
\<close>

definition getString :: "lib \<Rightarrow> string \<Rightarrow> (error + string) outcome prog" where
  "getString L key =
     RLock (Index key (\<lambda>v. case v of
         None \<Rightarrow>
           RUnlock (Return (Returns (Inl (Errorf (''key '' @ key @ '' was not found in the config'')))))
       | Some p \<Rightarrow>
           Index key (\<lambda>p. case deref p of
               None \<Rightarrow> Return (Panics NilPointerDereference)
             | Some raw \<Rightarrow>
                 (case json_Unmarshal_string L raw of
                    Inl err \<Rightarrow> RUnlock (Return (Returns (Inl err)))
                  | Inr value \<Rightarrow> RUnlock (Return (Returns (Inr value)))))))"

definition getInt :: "lib \<Rightarrow> string \<Rightarrow> (error + int) outcome prog" where
  "getInt L key =
     RLock (Index key (\<lambda>v. case v of
         None \<Rightarrow>
           RUnlock (Return (Returns (Inl (Errorf (''key '' @ key @ '' was not found in the config'')))))
       | Some p \<Rightarrow>
           Index key (\<lambda>p. case deref p of
               None \<Rightarrow> Return (Panics NilPointerDereference)
             | Some raw \<Rightarrow>
                 (case json_Unmarshal_int L raw of
                    Inl err \<Rightarrow> RUnlock (Return (Returns (Inl err)))
                  | Inr value \<Rightarrow> RUnlock (Return (Returns (Inr value)))))))"

text \<open>\<open>getTime\<close> (lines 437-449).\<close>

definition getTime :: "lib \<Rightarrow> string \<Rightarrow> (error + Time) outcome prog" where
  "getTime L key =
     call (getString L key) (\<lambda>r. case r of
         Inl err \<Rightarrow> Return (Returns (Inl err))
       | Inr valueStr \<Rightarrow>
           (case time_Parse L ''2.1.2006'' valueStr of
              Inl err \<Rightarrow> Return (Returns (Inl err))
            | Inr value \<Rightarrow> Return (Returns (Inr value))))"

text \<open>\<open>GetString\<close> (lines 185-192), \<open>GetInt\<close> (lines 207-214) and \<open>GetTime\<close> (lines 251-258).\<close>

definition GetString :: "lib \<Rightarrow> string \<Rightarrow> string \<Rightarrow> string outcome prog" where
  "GetString L key defaultVal =
     call (getString L key) (\<lambda>r. case r of
         Inl err \<Rightarrow> Return (Returns defaultVal)
       | Inr value \<Rightarrow> Return (Returns value))"

definition GetInt :: "lib \<Rightarrow> string \<Rightarrow> int \<Rightarrow> int outcome prog" where
  "GetInt L key defaultVal =
     call (getInt L key) (\<lambda>r. case r of
         Inl err \<Rightarrow> Return (Returns defaultVal)
       | Inr value \<Rightarrow> Return (Returns value))"

definition GetTime :: "lib \<Rightarrow> string \<Rightarrow> Time \<Rightarrow> Time outcome prog" where
  "GetTime L key defaultVal =
     call (getTime L key) (\<lambda>r. case r of
         Inl err \<Rightarrow> Return (Returns defaultVal)
       | Inr value \<Rightarrow> Return (Returns value))"

text \<open>\<open>MustGetInt\<close> (lines 218-225).\<close>

definition MustGetInt :: "lib \<Rightarrow> string \<Rightarrow> int outcome prog" where
  "MustGetInt L key =
     call (getInt L key) (\<lambda>r. case r of
         Inl err \<Rightarrow> Return (Panics (PanicError err))
       | Inr value \<Rightarrow> Return (Returns value))"

section \<open>The package of \<open>src/config/json/json.go\<close>\<close>

text \<open>
  The older package has the same map in a struct without lock or watch state, methods on a
  value receiver, and no test of the key before \<open>*(c.c[key])\<close>.
\<close>

record config_Config =
  config_c :: document

text \<open>\<open>new\<close> (lines 113-121) and \<open>New\<close> (lines 20-22).\<close>

definition config_new :: "lib \<Rightarrow> string \<Rightarrow> error + config_Config" where
  "config_new L jsonData =
     (case json_Unmarshal_map L jsonData of
        Inl err \<Rightarrow> Inl err
      | Inr m \<Rightarrow> Inr \<lparr>config_c = m\<rparr>)"

definition config_New :: "lib \<Rightarrow> string \<Rightarrow> error + config_Config" where
  "config_New L jsonStr = config_new L jsonStr"

text \<open>\<open>Section\<close> (lines 37-45).\<close>

definition config_Section :: "lib \<Rightarrow> config_Config \<Rightarrow> string \<Rightarrow> (error + config_Config) outcome" where
  "config_Section L cfg key =
     (case deref (config_c cfg key) of
        None \<Rightarrow> Panics NilPointerDereference
      | Some raw \<Rightarrow>
          (case json_Unmarshal_map L raw of
             Inl err \<Rightarrow> Returns (Inl err)
           | Inr m \<Rightarrow> Returns (Inr \<lparr>config_c = m\<rparr>)))"

text \<open>\<open>getString\<close> (lines 123-131) and \<open>getInt\<close> (lines 133-141).\<close>

definition config_getString :: "lib \<Rightarrow> config_Config \<Rightarrow> string \<Rightarrow> (error + string) outcome" where
  "config_getString L cfg key =
     (case deref (config_c cfg key) of
        None \<Rightarrow> Panics NilPointerDereference
      | Some raw \<Rightarrow>
          (case json_Unmarshal_string L raw of
             Inl err \<Rightarrow> Returns (Inl err)
           | Inr value \<Rightarrow> Returns (Inr value)))"

definition config_getInt :: "lib \<Rightarrow> config_Config \<Rightarrow> string \<Rightarrow> (error + int) outcome" where
  "config_getInt L cfg key =
     (case deref (config_c cfg key) of
        None \<Rightarrow> Panics NilPointerDereference
      | Some raw \<Rightarrow>
          (case json_Unmarshal_int L raw of
             Inl err \<Rightarrow> Returns (Inl err)
           | Inr value \<Rightarrow> Returns (Inr value)))"

text \<open>\<open>GetString\<close> (lines 49-56) and \<open>GetInt\<close> (lines 71-78).\<close>

definition config_GetString :: "lib \<Rightarrow> config_Config \<Rightarrow> string \<Rightarrow> string \<Rightarrow> string outcome" where
  "config_GetString L cfg key defaultVal =
     (case config_getString L cfg key of
        Panics p \<Rightarrow> Panics p
      | Returns (Inl err) \<Rightarrow> Returns defaultVal
      | Returns (Inr value) \<Rightarrow> Returns value)"

definition config_GetInt :: "lib \<Rightarrow> config_Config \<Rightarrow> string \<Rightarrow> int \<Rightarrow> int outcome" where
  "config_GetInt L cfg key defaultVal =
     (case config_getInt L cfg key of
        Panics p \<Rightarrow> Panics p
      | Returns (Inl err) \<Rightarrow> Returns defaultVal
      | Returns (Inr value) \<Rightarrow> Returns value)"

section \<open>Watch and StopWatching\<close>

definition CompareAndSwapInt32 :: "32 word \<Rightarrow> 32 word \<Rightarrow> 32 word \<Rightarrow> bool \<times> 32 word" where
  "CompareAndSwapInt32 v old new = (if v = old then (True, new) else (False, v))"

text \<open>
  \<open>Watch\<close> (lines 59-119).  The first argument is what \<open>fsnotify.NewWatcher()\<close> returns in
  this call: \<open>None\<close> for a new watcher, \<open>Some err\<close> for its error.  The flag is swapped before
  the watcher is created, and the early return on \<open>err\<close> does not swap it back.
\<close>

definition Watch :: "error option \<Rightarrow> Config \<Rightarrow> world \<Rightarrow> (error + nat) \<times> Config \<times> world" where
  "Watch newWatcher cfg w =
     (case CompareAndSwapInt32 (isBeingWatched cfg) 0 1 of
        (True, flag) \<Rightarrow>
          (let cfg1 = cfg\<lparr>isBeingWatched := flag\<rparr>;
               ch = fresh w;
               w1 = w\<lparr>fresh := Suc (fresh w), open_chans := ch # open_chans w\<rparr>
           in case newWatcher of
                Some err \<Rightarrow> (Inl err, cfg1, w1)
              | None \<Rightarrow>
                  (let wt = fresh w1;
                       w2 = w1\<lparr>fresh := Suc (fresh w1), open_watchers := wt # open_watchers w1\<rparr>;
                       cfg2 = cfg1\<lparr>watcher := Some wt, watchC := Some ch\<rparr>
                   in (Inr ch, cfg2, w2\<lparr>listeners := wt # listeners w2\<rparr>)))
      | (False, flag) \<Rightarrow> (Inl ErrAlreadyBeingWatched, cfg, w))"

text \<open>
  \<open>StopWatching\<close> (lines 121-136).  The first argument is what \<open>c.watcher.Close()\<close> returns.
  \<open>Close\<close> on a nil \<open>*fsnotify.Watcher\<close> reads a field of its receiver, and \<open>close\<close> of a nil
  channel panics.  Closing the watcher closes its \<open>Events\<close> channel, on which the listener
  returns.
\<close>

definition StopWatching ::
    "error option \<Rightarrow> Config \<Rightarrow> world \<Rightarrow> error option outcome \<times> Config \<times> world" where
  "StopWatching closeErr cfg w =
     (case CompareAndSwapInt32 (isBeingWatched cfg) 1 0 of
        (True, flag) \<Rightarrow>
          (let cfg1 = cfg\<lparr>isBeingWatched := flag\<rparr> in
           case watcher cfg1 of
             None \<Rightarrow> (Panics NilPointerDereference, cfg1, w)
           | Some wt \<Rightarrow>
               (let w1 = w\<lparr>open_watchers := removeAll wt (open_watchers w),
                            listeners := removeAll wt (listeners w)\<rparr>
                in case watchC cfg1 of
                     None \<Rightarrow> (Panics CloseOfNilChannel, cfg1, w1)
                   | Some ch \<Rightarrow>
                       (Returns closeErr,
                        cfg1\<lparr>watchC := None, watcher := None\<rparr>,
                        w1\<lparr>open_chans := removeAll ch (open_chans w1)\<rparr>)))
      | (False, flag) \<Rightarrow> (Returns (Some ErrNotBeingWatched), cfg, w))"

text \<open>A handle that is not being watched, as \<open>Load\<close> creates it and as \<open>StopWatching\<close> leaves it.\<close>

definition idle :: "Config \<Rightarrow> bool" where
  "idle cfg = (isBeingWatched cfg = 0 \<and> watcher cfg = None \<and> watchC cfg = None)"



text \<open>Call \<open>Watch\<close> once per element of the list and collect what the calls return.\<close>

fun Watch_again :: "error option list \<Rightarrow> Config \<Rightarrow> world \<Rightarrow> (error + nat) list \<times> Config \<times> world" where
  "Watch_again [] cfg w = ([], cfg, w)"
| "Watch_again (newWatcher # rest) cfg w =
     (case Watch newWatcher cfg w of
        (r, cfg1, w1) \<Rightarrow> (case Watch_again rest cfg1 w1 of (rs, cfg2, w2) \<Rightarrow> (r # rs, cfg2, w2)))"

definition new_handle :: "document \<Rightarrow> string \<Rightarrow> Config" where
  "new_handle d path =
     \<lparr>mut = \<lparr>readers = 0, writer = False\<rparr>, c = d, filePath = path,
      isBeingWatched = 0, watcher = None, watchC = None\<rparr>"

definition empty_world :: world where
  "empty_world = \<lparr>fresh = 0, open_watchers = [], open_chans = [], listeners = []\<rparr>"

section \<open>The listener goroutine of \<open>Watch\<close>\<close>

text \<open>
  An \<open>fsnotify.Event\<close>; \<open>Op\<close> is a bit mask (\<open>type Op uint32\<close>) in which \<open>fsnotify.Write\<close> is
  the second bit.
\<close>

record Event =
  Name :: string
  Op :: "32 word"

definition Create :: "32 word" where "Create = 1"
definition Write :: "32 word" where "Write = 2"
definition Remove :: "32 word" where "Remove = 4"
definition Rename :: "32 word" where "Rename = 8"

text \<open>
  The goroutine started at lines 71-113 proceeds by channel operations.  It waits in the
  \<open>select\<close> (line 73), in the receive \<open><-watcher.Events\<close> of line 102, or in the send on
  \<open>watchC\<close> of line 104.  Its run is driven by the operations that complete, in their order:
  an event received (together with what \<open>ioutil.ReadFile(c.filePath)\<close> returns if the event is
  handled), the closed \<open>Events\<close> channel read, an error received, the closed \<open>Errors\<close> channel
  read, and the send taken by the receiver of \<open>watchC\<close>.
\<close>

datatype sync =
    RecvEvent Event "error + string"
  | EventsClosed
  | RecvError error
  | ErrorsClosed
  | Sent

datatype place = AtSelect | AtReceive | AtSend | Exited

datatype logline = ErrorReading error | ErrorUnmarshalling error | ErrorReceiving error

record listener =
  at :: place
  handle :: Config
  logged :: "logline list"
  sent :: nat

text \<open>Lines 95-99: the assignment of the new map under the write lock.\<close>

definition swap :: "document \<Rightarrow> unit prog" where
  "swap newData = Lock (Assign newData (Unlock (Return ())))"

text \<open>
  One completed channel operation of the listener, together with what the listener does up
  to its next channel operation; \<open>None\<close> when the operation cannot complete where the
  listener waits, or when the listener cannot get that far now because it waits for the
  write lock at line 95.  The two \<open>continue\<close> statements of lines 84 and 92 return to the
  \<open>select\<close>; every other path through the event case goes on to lines 102 and 104.
\<close>

fun listen :: "lib \<Rightarrow> listener \<Rightarrow> sync \<Rightarrow> listener option" where
  "listen L s (RecvEvent event readFile) =
     (case at s of
        AtSelect \<Rightarrow>
          (if Op event AND Write = Write then
             (case readFile of
                Inl err \<Rightarrow> Some (s\<lparr>logged := logged s @ [ErrorReading err]\<rparr>)
              | Inr data \<Rightarrow>
                  (case json_Unmarshal_map L data of
                     Inl err \<Rightarrow> Some (s\<lparr>logged := logged s @ [ErrorUnmarshalling err]\<rparr>)
                   | Inr newData \<Rightarrow>
                       (case exec (swap newData) (handle s) of
                          None \<Rightarrow> None
                        | Some (u, cfg) \<Rightarrow> Some (s\<lparr>handle := cfg, at := AtReceive\<rparr>))))
           else Some (s\<lparr>at := AtReceive\<rparr>))
      | AtReceive \<Rightarrow> Some (s\<lparr>at := AtSend\<rparr>)
      | AtSend \<Rightarrow> None
      | Exited \<Rightarrow> None)"
| "listen L s EventsClosed =
     (case at s of
        AtSelect \<Rightarrow> Some (s\<lparr>at := Exited\<rparr>)
      | AtReceive \<Rightarrow> Some (s\<lparr>at := AtSend\<rparr>)
      | AtSend \<Rightarrow> None
      | Exited \<Rightarrow> None)"
| "listen L s (RecvError err) =
     (case at s of
        AtSelect \<Rightarrow> Some (s\<lparr>logged := logged s @ [ErrorReceiving err]\<rparr>)
      | AtReceive \<Rightarrow> None
      | AtSend \<Rightarrow> None
      | Exited \<Rightarrow> None)"
| "listen L s ErrorsClosed =
     (case at s of
        AtSelect \<Rightarrow> Some s
      | AtReceive \<Rightarrow> None
      | AtSend \<Rightarrow> None
      | Exited \<Rightarrow> None)"
| "listen L s Sent =
     (case at s of
        AtSelect \<Rightarrow> None
      | AtReceive \<Rightarrow> None
      | AtSend \<Rightarrow> Some (s\<lparr>at := AtSelect, sent := Suc (sent s)\<rparr>)
      | Exited \<Rightarrow> None)"

fun listen_all :: "lib \<Rightarrow> listener \<Rightarrow> sync list \<Rightarrow> listener option" where
  "listen_all L s [] = Some s"
| "listen_all L s (x # xs) =
     (case listen L s x of
        None \<Rightarrow> None
      | Some s' \<Rightarrow> listen_all L s' xs)"

text \<open>The listener as \<open>Watch\<close> starts it on a handle.\<close>

definition started :: "Config \<Rightarrow> listener" where
  "started cfg = \<lparr>at = AtSelect, handle = cfg, logged = [], sent = 0\<rparr>"


section \<open>A model of the library functions\<close>

text \<open>
  Modelled from the spec: \<open>json.Unmarshal\<close> (package \<open>encoding/json\<close>) and \<open>time.Parse\<close>
  (package \<open>time\<close>) are called by the source but are not part of it.  The specification asks
  of the decoder (sections 4.1 and 6) that a buffer whose top level is an object parses, that
  a top-level array is rejected as a shape error, and that malformed syntax is rejected with
  a decode error that differs from the shape error; and of timestamps that the decoded string
  is parsed with the date-only layout day, month, four-digit year, separated by dots.  The
  model below meets these words and takes the rest from the Go library: the states and
  transitions of the validity scanner are those of \<open>scanner.go\<close>, a raw message is the exact
  text of a member's value, a member \<open>null\<close> gives a nil pointer, and a number decodes into an
  \<open>int\<close> only when it is a decimal integer of 64 bits.  Left out are the nesting limit of the
  scanner and the replacement of ill-formed UTF-8 in string values.
\<close>

definition dquote :: char where "dquote = CHR 0x22"
definition backslash :: char where "backslash = CHR 0x5C"

definition isSpace :: "char \<Rightarrow> bool" where
  "isSpace ch = (ch = CHR '' '' \<or> ch = CHR 0x09 \<or> ch = CHR 0x0D \<or> ch = CHR 0x0A)"

definition isDigit :: "char \<Rightarrow> bool" where
  "isDigit ch = (ch \<in> set ''0123456789'')"

definition isHex :: "char \<Rightarrow> bool" where
  "isHex ch = (ch \<in> set ''0123456789abcdefABCDEF'')"

datatype pstate = ParseObjectKey | ParseObjectValue | ParseArrayValue

datatype sstate =
    BeginValueOrEmpty | BeginValue | BeginStringOrEmpty | BeginString | EndValue | EndTop
  | InString | InStringEsc | InStringEscU | InStringEscU1 | InStringEscU12 | InStringEscU123
  | Neg | S1 | S0 | Dot | Dot0 | SE | ESign | E0
  | ST | STr | STru | SF | SFa | SFal | SFals | SN | SNu | SNul

definition stateEndTop :: "pstate list \<Rightarrow> char \<Rightarrow> (sstate \<times> pstate list) option" where
  "stateEndTop ps ch = (if isSpace ch then Some (EndTop, ps) else None)"

definition popParseState :: "pstate list \<Rightarrow> sstate \<times> pstate list" where
  "popParseState rest = (if rest = [] then (EndTop, rest) else (EndValue, rest))"

definition stateEndValue :: "pstate list \<Rightarrow> char \<Rightarrow> (sstate \<times> pstate list) option" where
  "stateEndValue ps ch =
     (case ps of
        [] \<Rightarrow> stateEndTop ps ch
      | p # rest \<Rightarrow>
          if isSpace ch then Some (EndValue, ps)
          else (case p of
                  ParseObjectKey \<Rightarrow>
                    if ch = CHR '':'' then Some (BeginValue, ParseObjectValue # rest) else None
                | ParseObjectValue \<Rightarrow>
                    if ch = CHR '','' then Some (BeginString, ParseObjectKey # rest)
                    else if ch = CHR ''}'' then Some (popParseState rest)
                    else None
                | ParseArrayValue \<Rightarrow>
                    if ch = CHR '','' then Some (BeginValue, ps)
                    else if ch = CHR '']'' then Some (popParseState rest)
                    else None))"

definition stateBeginValue :: "pstate list \<Rightarrow> char \<Rightarrow> (sstate \<times> pstate list) option" where
  "stateBeginValue ps ch =
     (if ch = CHR ''{'' then Some (BeginStringOrEmpty, ParseObjectKey # ps)
      else if ch = CHR ''['' then Some (BeginValueOrEmpty, ParseArrayValue # ps)
      else if ch = dquote then Some (InString, ps)
      else if ch = CHR ''-'' then Some (Neg, ps)
      else if ch = CHR ''0'' then Some (S0, ps)
      else if ch = CHR ''t'' then Some (ST, ps)
      else if ch = CHR ''f'' then Some (SF, ps)
      else if ch = CHR ''n'' then Some (SN, ps)
      else if isDigit ch then Some (S1, ps)
      else None)"

definition stateBeginString :: "pstate list \<Rightarrow> char \<Rightarrow> (sstate \<times> pstate list) option" where
  "stateBeginString ps ch = (if ch = dquote then Some (InString, ps) else None)"

definition state0 :: "pstate list \<Rightarrow> char \<Rightarrow> (sstate \<times> pstate list) option" where
  "state0 ps ch =
     (if ch = CHR ''.'' then Some (Dot, ps)
      else if ch = CHR ''e'' \<or> ch = CHR ''E'' then Some (SE, ps)
      else stateEndValue ps ch)"

definition stateESign :: "pstate list \<Rightarrow> char \<Rightarrow> (sstate \<times> pstate list) option" where
  "stateESign ps ch = (if isDigit ch then Some (E0, ps) else None)"

definition expect :: "char \<Rightarrow> sstate \<Rightarrow> pstate list \<Rightarrow> char \<Rightarrow> (sstate \<times> pstate list) option" where
  "expect want next ps ch = (if ch = want then Some (next, ps) else None)"

fun scan_step :: "sstate \<Rightarrow> pstate list \<Rightarrow> char \<Rightarrow> (sstate \<times> pstate list) option" where
  "scan_step BeginValueOrEmpty ps ch =
     (if isSpace ch then Some (BeginValueOrEmpty, ps)
      else if ch = CHR '']'' then stateEndValue ps ch
      else stateBeginValue ps ch)"
| "scan_step BeginValue ps ch = (if isSpace ch then Some (BeginValue, ps) else stateBeginValue ps ch)"
| "scan_step BeginStringOrEmpty ps ch =
     (if isSpace ch then Some (BeginStringOrEmpty, ps)
      else if ch = CHR ''}'' then stateEndValue (ParseObjectValue # tl ps) ch
      else stateBeginString ps ch)"
| "scan_step BeginString ps ch = (if isSpace ch then Some (BeginString, ps) else stateBeginString ps ch)"
| "scan_step EndValue ps ch = stateEndValue ps ch"
| "scan_step EndTop ps ch = stateEndTop ps ch"
| "scan_step InString ps ch =
     (if ch = dquote then Some (EndValue, ps)
      else if ch = backslash then Some (InStringEsc, ps)
      else if of_char ch < (0x20 :: nat) then None
      else Some (InString, ps))"
| "scan_step InStringEsc ps ch =
     (if ch \<in> set ''bfnrt/'' \<or> ch = backslash \<or> ch = dquote then Some (InString, ps)
      else if ch = CHR ''u'' then Some (InStringEscU, ps)
      else None)"
| "scan_step InStringEscU ps ch = (if isHex ch then Some (InStringEscU1, ps) else None)"
| "scan_step InStringEscU1 ps ch = (if isHex ch then Some (InStringEscU12, ps) else None)"
| "scan_step InStringEscU12 ps ch = (if isHex ch then Some (InStringEscU123, ps) else None)"
| "scan_step InStringEscU123 ps ch = (if isHex ch then Some (InString, ps) else None)"
| "scan_step Neg ps ch =
     (if ch = CHR ''0'' then Some (S0, ps) else if isDigit ch then Some (S1, ps) else None)"
| "scan_step S1 ps ch = (if isDigit ch then Some (S1, ps) else state0 ps ch)"
| "scan_step S0 ps ch = state0 ps ch"
| "scan_step Dot ps ch = (if isDigit ch then Some (Dot0, ps) else None)"
| "scan_step Dot0 ps ch =
     (if isDigit ch then Some (Dot0, ps)
      else if ch = CHR ''e'' \<or> ch = CHR ''E'' then Some (SE, ps)
      else stateEndValue ps ch)"
| "scan_step SE ps ch =
     (if ch = CHR ''+'' \<or> ch = CHR ''-'' then Some (ESign, ps) else stateESign ps ch)"
| "scan_step ESign ps ch = stateESign ps ch"
| "scan_step E0 ps ch = (if isDigit ch then Some (E0, ps) else stateEndValue ps ch)"
| "scan_step ST ps ch = expect (CHR ''r'') STr ps ch"
| "scan_step STr ps ch = expect (CHR ''u'') STru ps ch"
| "scan_step STru ps ch = expect (CHR ''e'') EndValue ps ch"
| "scan_step SF ps ch = expect (CHR ''a'') SFa ps ch"
| "scan_step SFa ps ch = expect (CHR ''l'') SFal ps ch"
| "scan_step SFal ps ch = expect (CHR ''s'') SFals ps ch"
| "scan_step SFals ps ch = expect (CHR ''e'') EndValue ps ch"
| "scan_step SN ps ch = expect (CHR ''u'') SNu ps ch"
| "scan_step SNu ps ch = expect (CHR ''l'') SNul ps ch"
| "scan_step SNul ps ch = expect (CHR ''l'') EndValue ps ch"

definition eof :: "sstate \<Rightarrow> pstate list \<Rightarrow> bool" where
  "eof st ps =
     (st = EndTop \<or> (case scan_step st ps (CHR '' '') of Some (st', ps') \<Rightarrow> st' = EndTop | None \<Rightarrow> False))"

fun scan :: "sstate \<Rightarrow> pstate list \<Rightarrow> nat \<Rightarrow> string \<Rightarrow> error option" where
  "scan st ps n [] = (if eof st ps then None else Some (SyntaxError n))"
| "scan st ps n (ch # cs) =
     (case scan_step st ps ch of
        None \<Rightarrow> Some (SyntaxError (Suc n))
      | Some (st', ps') \<Rightarrow> scan st' ps' (Suc n) cs)"

definition checkValid :: "string \<Rightarrow> error option" where
  "checkValid data = scan BeginValue [] 0 data"

text \<open>A string between double quotes, for writing JSON text.\<close>

definition quoted :: "string \<Rightarrow> string" where
  "quoted s = dquote # s @ [dquote]"

definition skipSpace :: "string \<Rightarrow> string" where
  "skipSpace s = dropWhile isSpace s"

definition trimSpace :: "string \<Rightarrow> string" where
  "trimSpace s = rev (dropWhile isSpace (rev (dropWhile isSpace s)))"

fun split_members :: "nat \<Rightarrow> bool \<Rightarrow> bool \<Rightarrow> string \<Rightarrow> string \<Rightarrow> string \<Rightarrow> (string \<times> string) list" where
  "split_members d inStr esc key cur [] = []"
| "split_members d inStr esc key cur (ch # cs) =
     (if inStr then
        (if esc then split_members d True False key (ch # cur) cs
         else if ch = backslash then split_members d True True key (ch # cur) cs
         else if ch = dquote then split_members d False False key (ch # cur) cs
         else split_members d True False key (ch # cur) cs)
      else if ch = dquote then split_members d True False key (ch # cur) cs
      else if ch = CHR ''{'' \<or> ch = CHR ''['' then
        split_members (Suc d) False False key (if d = 0 then cur else ch # cur) cs
      else if ch = CHR ''}'' \<or> ch = CHR '']'' then
        (if d \<le> 1 then (if cur = [] then [] else [(key, rev cur)])
         else split_members (d - 1) False False key (ch # cur) cs)
      else if d = 1 \<and> ch = CHR '':'' then split_members d False False (rev cur) [] cs
      else if d = 1 \<and> ch = CHR '','' then (key, rev cur) # split_members d False False [] [] cs
      else if d \<le> 1 \<and> isSpace ch then split_members d False False key cur cs
      else split_members d False False key (ch # cur) cs)"

definition hexval :: "char \<Rightarrow> nat" where
  "hexval ch =
     (if isDigit ch then of_char ch - 48
      else if ch \<in> set ''abcdef'' then of_char ch - 87
      else of_char ch - 55)"

definition getu4 :: "char \<Rightarrow> char \<Rightarrow> char \<Rightarrow> char \<Rightarrow> nat" where
  "getu4 h1 h2 h3 h4 = ((hexval h1 * 16 + hexval h2) * 16 + hexval h3) * 16 + hexval h4"

definition EncodeRune :: "nat \<Rightarrow> string" where
  "EncodeRune r =
     (if r < 0x80 then [char_of r]
      else if r < 0x800 then [char_of (0xC0 + r div 64), char_of (0x80 + r mod 64)]
      else if r < 0x10000 then
        [char_of (0xE0 + r div 4096), char_of (0x80 + r div 64 mod 64), char_of (0x80 + r mod 64)]
      else
        [char_of (0xF0 + r div 262144), char_of (0x80 + r div 4096 mod 64),
         char_of (0x80 + r div 64 mod 64), char_of (0x80 + r mod 64)])"

definition IsSurrogate :: "nat \<Rightarrow> bool" where
  "IsSurrogate r = (0xD800 \<le> r \<and> r < 0xE000)"

definition escaped :: "char \<Rightarrow> char" where
  "escaped e =
     (if e = CHR ''b'' then CHR 0x08
      else if e = CHR ''f'' then CHR 0x0C
      else if e = CHR ''n'' then CHR 0x0A
      else if e = CHR ''r'' then CHR 0x0D
      else if e = CHR ''t'' then CHR 0x09
      else e)"

fun unescape :: "string \<Rightarrow> string" where
  "unescape [] = []"
| "unescape [ch] = [ch]"
| "unescape (ch # e # cs) =
     (if ch \<noteq> backslash then ch # unescape (e # cs)
      else if e \<noteq> CHR ''u'' then escaped e # unescape cs
      else (case cs of
              h1 # h2 # h3 # h4 # rest \<Rightarrow>
                (let rr = getu4 h1 h2 h3 h4 in
                 if \<not> IsSurrogate rr then EncodeRune rr @ unescape rest
                 else (case rest of
                         b # u # l1 # l2 # l3 # l4 # rest1 \<Rightarrow>
                           (let rr1 = getu4 l1 l2 l3 l4 in
                            if b = backslash \<and> u = CHR ''u''
                               \<and> isHex l1 \<and> isHex l2 \<and> isHex l3 \<and> isHex l4
                               \<and> rr < 0xDC00 \<and> 0xDC00 \<le> rr1 \<and> rr1 < 0xE000
                            then EncodeRune ((rr - 0xD800) * 1024 + (rr1 - 0xDC00) + 0x10000)
                                   @ unescape rest1
                            else EncodeRune 0xFFFD @ unescape rest)
                       | _ \<Rightarrow> EncodeRune 0xFFFD @ unescape rest))
            | _ \<Rightarrow> []))"

definition unquote :: "string \<Rightarrow> string" where
  "unquote lit = unescape (butlast (tl lit))"

text \<open>
  Modelled from the spec: \<open>json.Unmarshal\<close> into a \<open>map[string]*json.RawMessage\<close>, missing
  from the sources.  Invalid text gives the scanner's syntax error; of valid text an object
  gives the map of its members, \<open>null\<close> the nil map, and an array, a string, a number or a
  boolean the type error that names the kind of the value.
\<close>

definition go_Unmarshal_map :: "string \<Rightarrow> error + document" where
  "go_Unmarshal_map data =
     (case checkValid data of
        Some err \<Rightarrow> Inl err
      | None \<Rightarrow>
          (case skipSpace data of
             [] \<Rightarrow> Inl (SyntaxError 0)
           | ch # rest \<Rightarrow>
               if ch = CHR ''{'' then
                 Inr (foldl (\<lambda>m (k, v). m(unquote k \<mapsto> (if v = ''null'' then None else Some v)))
                        Map.empty (split_members 0 False False [] [] data))
               else if ch = CHR ''['' then Inl (UnmarshalTypeError ''array'')
               else if ch = dquote then Inl (UnmarshalTypeError ''string'')
               else if ch = CHR ''n'' then Inr Map.empty
               else if ch = CHR ''t'' \<or> ch = CHR ''f'' then Inl (UnmarshalTypeError ''bool'')
               else Inl (UnmarshalTypeError ''number'')))"

text \<open>
  Modelled from the spec: \<open>json.Unmarshal\<close> into a \<open>string\<close> and into an \<open>int\<close>, missing from
  the sources.  \<open>null\<close> leaves the zero value; a value of another kind gives the type error.
\<close>

definition go_Unmarshal_string :: "string \<Rightarrow> error + string" where
  "go_Unmarshal_string data =
     (case checkValid data of
        Some err \<Rightarrow> Inl err
      | None \<Rightarrow>
          (case skipSpace data of
             [] \<Rightarrow> Inl (SyntaxError 0)
           | ch # rest \<Rightarrow>
               if ch = dquote then Inr (unquote (trimSpace data))
               else if ch = CHR ''n'' then Inr []
               else if ch = CHR ''{'' then Inl (UnmarshalTypeError ''object'')
               else if ch = CHR ''['' then Inl (UnmarshalTypeError ''array'')
               else if ch = CHR ''t'' \<or> ch = CHR ''f'' then Inl (UnmarshalTypeError ''bool'')
               else Inl (UnmarshalTypeError ''number'')))"

definition atoi :: "string \<Rightarrow> int" where
  "atoi ds = foldl (\<lambda>n ch. 10 * n + int (of_char ch - 48)) 0 ds"

definition ParseInt :: "string \<Rightarrow> int option" where
  "ParseInt s =
     (let neg = (s \<noteq> [] \<and> hd s = CHR ''-'');
          ds = (if neg then tl s else s);
          n = (if neg then - atoi ds else atoi ds)
      in if ds \<noteq> [] \<and> list_all isDigit ds \<and> - (2 ^ 63) \<le> n \<and> n < 2 ^ 63 then Some n else None)"

definition go_Unmarshal_int :: "string \<Rightarrow> error + int" where
  "go_Unmarshal_int data =
     (case checkValid data of
        Some err \<Rightarrow> Inl err
      | None \<Rightarrow>
          (case skipSpace data of
             [] \<Rightarrow> Inl (SyntaxError 0)
           | ch # rest \<Rightarrow>
               if ch = CHR ''-'' \<or> isDigit ch then
                 (case ParseInt (trimSpace data) of
                    Some n \<Rightarrow> Inr n
                  | None \<Rightarrow> Inl (UnmarshalTypeError (''number '' @ trimSpace data)))
               else if ch = CHR ''n'' then Inr 0
               else if ch = dquote then Inl (UnmarshalTypeError ''string'')
               else if ch = CHR ''{'' then Inl (UnmarshalTypeError ''object'')
               else if ch = CHR ''['' then Inl (UnmarshalTypeError ''array'')
               else Inl (UnmarshalTypeError ''bool'')))"

text \<open>
  Modelled from the spec: \<open>time.Parse\<close>, missing from the sources, for layouts made of the
  elements \<open>2\<close>, \<open>1\<close>, \<open>2006\<close> and separator characters other than the space.  The layout is cut
  into its elements, then the value is read element by element: the day and the month take
  one or two digits, the year exactly four, the month is checked on the spot and the day
  against the month at the end.  A value that does not fit gives a \<open>*time.ParseError\<close>.
\<close>

datatype chunk = Literal char | StdDay | StdNumMonth | StdLongYear

fun nextStdChunk :: "string \<Rightarrow> chunk list" where
  "nextStdChunk [] = []"
| "nextStdChunk (ch # cs) =
     (if ch = CHR ''2'' then
        (case cs of
           a # b # d # rest \<Rightarrow>
             if a = CHR ''0'' \<and> b = CHR ''0'' \<and> d = CHR ''6'' then StdLongYear # nextStdChunk rest
             else StdDay # nextStdChunk cs
         | _ \<Rightarrow> StdDay # nextStdChunk cs)
      else if ch = CHR ''1'' then StdNumMonth # nextStdChunk cs
      else Literal ch # nextStdChunk cs)"

definition digit :: "char \<Rightarrow> int" where
  "digit ch = int (of_char ch - 48)"

definition getnum :: "string \<Rightarrow> (int \<times> string) option" where
  "getnum s =
     (case s of
        [] \<Rightarrow> None
      | a # r \<Rightarrow>
          if \<not> isDigit a then None
          else (case r of
                  [] \<Rightarrow> Some (digit a, r)
                | b # r' \<Rightarrow> if isDigit b then Some (digit a * 10 + digit b, r') else Some (digit a, r)))"

definition isLeap :: "int \<Rightarrow> bool" where
  "isLeap y = (y mod 4 = 0 \<and> (y mod 100 \<noteq> 0 \<or> y mod 400 = 0))"

definition daysIn :: "int \<Rightarrow> int \<Rightarrow> int" where
  "daysIn m y =
     (if m = 2 then (if isLeap y then 29 else 28)
      else if m = 4 \<or> m = 6 \<or> m = 9 \<or> m = 11 then 30
      else 31)"

fun parse :: "chunk list \<Rightarrow> string \<Rightarrow> int \<Rightarrow> int \<Rightarrow> int \<Rightarrow> error + int \<times> int \<times> int" where
  "parse [] val y m d =
     (if val \<noteq> [] then Inl (ParseError ('': extra text: '' @ val)) else Inr (y, m, d))"
| "parse (Literal ch # layout) val y m d =
     (case val of
        [] \<Rightarrow> Inl (ParseError [])
      | v # rest \<Rightarrow> if v = ch then parse layout rest y m d else Inl (ParseError []))"
| "parse (StdDay # layout) val y m d =
     (case getnum val of
        None \<Rightarrow> Inl (ParseError [])
      | Some (day, rest) \<Rightarrow> parse layout rest y m day)"
| "parse (StdNumMonth # layout) val y m d =
     (case getnum val of
        None \<Rightarrow> Inl (ParseError [])
      | Some (month, rest) \<Rightarrow>
          if month \<le> 0 \<or> 12 < month then Inl (ParseError '': month out of range'')
          else parse layout rest y month d)"
| "parse (StdLongYear # layout) val y m d =
     (if length val < 4 \<or> \<not> list_all isDigit (take 4 val) then Inl (ParseError [])
      else parse layout (drop 4 val) (atoi (take 4 val)) m d)"

definition go_time_Parse :: "string \<Rightarrow> string \<Rightarrow> error + Time" where
  "go_time_Parse layout val =
     (case parse (nextStdChunk layout) val 0 (- 1) (- 1) of
        Inl err \<Rightarrow> Inl err
      | Inr (y, m, d) \<Rightarrow>
          (let month = (if m < 0 then 1 else m); day = (if d < 0 then 1 else d)
           in if day < 1 \<or> daysIn month y < day then Inl (ParseError '': day out of range'')
              else Inr \<lparr>Year = y, Month = month, Day = day\<rparr>))"

definition golib :: lib where
  "golib = \<lparr>json_Unmarshal_map = go_Unmarshal_map, json_Unmarshal_string = go_Unmarshal_string,
            json_Unmarshal_int = go_Unmarshal_int, time_Parse = go_time_Parse\<rparr>"

text \<open>
  The layout the specification names: three fields separated by dots, a day and a month of
  one or two digits and a year of four digits.
\<close>

fun fields :: "char \<Rightarrow> string \<Rightarrow> string list" where
  "fields sep [] = [[]]"
| "fields sep (ch # cs) =
     (if ch = sep then [] # fields sep cs
      else (case fields sep cs of [] \<Rightarrow> [[ch]] | f # fs \<Rightarrow> (ch # f) # fs))"

definition D_M_YYYY :: "string \<Rightarrow> bool" where
  "D_M_YYYY s =
     (case fields (CHR ''.'') s of
        [dd, mm, yyyy] \<Rightarrow>
          list_all isDigit dd \<and> (length dd = 1 \<or> length dd = 2)
          \<and> list_all isDigit mm \<and> (length mm = 1 \<or> length mm = 2)
          \<and> list_all isDigit yyyy \<and> length yyyy = 4
      | _ \<Rightarrow> False)"

section \<open>Documents of the tests\<close>

text \<open>
  The JSON texts of \<open>TestNew\<close>, \<open>TestSection\<close> and \<open>TestGetTime\<close> in \<open>json_test.go\<close>, with the
  line breaks and tabs between the tokens written as single spaces, and the document of the
  specification's example.
\<close>

definition doc_id :: string where
  "doc_id = ''{'' @ quoted ''id'' @ '': 1}''"

definition doc_person :: string where
  "doc_person =
     ''{ '' @ quoted ''id'' @ '': 1, '' @ quoted ''name'' @ '': '' @ quoted ''qwerty'' @ '', ''
       @ quoted ''birthday'' @ '': '' @ quoted ''12.09.2018'' @ '', ''
       @ quoted ''address'' @ '': { '' @ quoted ''city'' @ '': '' @ quoted ''Moscow'' @ '', ''
       @ quoted ''street'' @ '': '' @ quoted ''Lenina str.'' @ '' } }''"

definition doc_address :: string where
  "doc_address =
     ''{ '' @ quoted ''city'' @ '': '' @ quoted ''Moscow'' @ '', ''
       @ quoted ''street'' @ '': '' @ quoted ''Lenina str.'' @ '' }''"

text \<open>The maps that \<open>doc_person\<close> and \<open>doc_address\<close> parse to.\<close>

definition person :: document where
  "person =
     [''id'' \<mapsto> Some ''1'', ''name'' \<mapsto> Some (quoted ''qwerty''),
      ''birthday'' \<mapsto> Some (quoted ''12.09.2018''), ''address'' \<mapsto> Some doc_address]"

definition address :: document where
  "address = [''city'' \<mapsto> Some (quoted ''Moscow''), ''street'' \<mapsto> Some (quoted ''Lenina str.'')]"

definition doc_array :: string where
  "doc_array = ''[ { '' @ quoted ''id'' @ '': 1 }, { '' @ quoted ''id'' @ '': 2 } ]''"

definition doc_unquoted :: string where
  "doc_unquoted = ''{ qwe: '' @ quoted ''qwe'' @ '' }''"

definition doc_null :: string where
  "doc_null = ''{'' @ quoted ''id'' @ '': null}''"

definition doc_birthday_null :: string where
  "doc_birthday_null = ''{'' @ quoted ''birthday'' @ '': null}''"

section \<open>The watch lifecycle\<close>

lemma Watch_while_flagged:
  "isBeingWatched cfg \<noteq> 0 \<Longrightarrow> Watch newWatcher cfg w = (Inl ErrAlreadyBeingWatched, cfg, w)"
  by (simp add: Watch_def CompareAndSwapInt32_def)







lemma Watch_again_flagged:
  "isBeingWatched cfg \<noteq> 0 \<Longrightarrow>
   Watch_again newWatchers cfg w = (replicate (length newWatchers) (Inl ErrAlreadyBeingWatched), cfg, w)"
  by (induction newWatchers) (simp_all add: Watch_while_flagged)



text \<open>
  C10.  When \<open>fsnotify.NewWatcher\<close> fails in \<open>Watch\<close> on an idle handle, \<open>Watch\<close> returns that
  error, the flag stays set, and no watcher is stored or opened and no listener is started.
  From then on every \<open>Watch\<close> returns \<open>ErrAlreadyBeingWatched\<close> whatever \<open>NewWatcher\<close> would
  return, and \<open>StopWatching\<close> calls \<open>Close\<close> on the nil watcher of the handle.
\<close>

theorem Watch_failure_keeps_flag:
  assumes "idle cfg"
  shows "\<exists>cfg1 w1. Watch (Some err) cfg w = (Inl err, cfg1, w1)
           \<and> isBeingWatched cfg1 = 1 \<and> watcher cfg1 = None \<and> watchC cfg1 = None
           \<and> open_watchers w1 = open_watchers w \<and> listeners w1 = listeners w
           \<and> (\<forall>newWatchers w'. Watch_again newWatchers cfg1 w'
                 = (replicate (length newWatchers) (Inl ErrAlreadyBeingWatched), cfg1, w'))
           \<and> (\<forall>closeErr w'. StopWatching closeErr cfg1 w'
                 = (Panics NilPointerDereference, cfg1\<lparr>isBeingWatched := 0\<rparr>, w'))"
proof -
  define cfg1 where "cfg1 = cfg\<lparr>isBeingWatched := 1\<rparr>"
  define w1 where "w1 = w\<lparr>fresh := Suc (fresh w), open_chans := fresh w # open_chans w\<rparr>"
  have id: "isBeingWatched cfg = 0" "watcher cfg = None" "watchC cfg = None"
    using assms by (simp_all add: idle_def)
  have call: "Watch (Some err) cfg w = (Inl err, cfg1, w1)"
    using id by (simp add: Watch_def CompareAndSwapInt32_def cfg1_def w1_def)
  have flag: "isBeingWatched cfg1 = 1" "watcher cfg1 = None" "watchC cfg1 = None"
    using id by (simp_all add: cfg1_def)
  have world: "open_watchers w1 = open_watchers w" "listeners w1 = listeners w"
    by (simp_all add: w1_def)
  have again: "\<forall>newWatchers w'. Watch_again newWatchers cfg1 w'
                 = (replicate (length newWatchers) (Inl ErrAlreadyBeingWatched), cfg1, w')"
    using flag(1) by (simp add: Watch_again_flagged)
  have stop: "\<forall>closeErr w'. StopWatching closeErr cfg1 w'
                 = (Panics NilPointerDereference, cfg1\<lparr>isBeingWatched := 0\<rparr>, w')"
    using flag by (simp add: StopWatching_def CompareAndSwapInt32_def)
  from call flag world again stop show ?thesis by blast
qed

theorem Watch_failure_keeps_flag_witness:
  "idle (new_handle Map.empty ''config.json'')
   \<and> (\<exists>cfg1 w1. Watch (Some (SyscallError ''EMFILE'')) (new_handle Map.empty ''config.json'') empty_world
          = (Inl (SyscallError ''EMFILE''), cfg1, w1)
        \<and> isBeingWatched cfg1 = 1 \<and> watcher cfg1 = None \<and> open_watchers w1 = []
        \<and> fst (Watch_again [None, None] cfg1 w1)
             = [Inl ErrAlreadyBeingWatched, Inl ErrAlreadyBeingWatched]
        \<and> fst (StopWatching None cfg1 w1) = Panics NilPointerDereference)"
proof -
  have i: "idle (new_handle Map.empty ''config.json'')"
    by (simp add: idle_def new_handle_def)
  have e: "open_watchers empty_world = []"
    by (simp add: empty_world_def)
  from Watch_failure_keeps_flag [OF i, of "SyscallError ''EMFILE''" empty_world] obtain cfg1 w1 where
    h: "Watch (Some (SyscallError ''EMFILE'')) (new_handle Map.empty ''config.json'') empty_world
          = (Inl (SyscallError ''EMFILE''), cfg1, w1)"
      "isBeingWatched cfg1 = 1" "watcher cfg1 = None"
      "open_watchers w1 = open_watchers empty_world"
      "\<forall>newWatchers w'. Watch_again newWatchers cfg1 w'
                 = (replicate (length newWatchers) (Inl ErrAlreadyBeingWatched), cfg1, w')"
      "\<forall>closeErr w'. StopWatching closeErr cfg1 w'
                 = (Panics NilPointerDereference, cfg1\<lparr>isBeingWatched := 0\<rparr>, w')"
    by blast
  have a: "fst (Watch_again [None, None] cfg1 w1) = [Inl ErrAlreadyBeingWatched, Inl ErrAlreadyBeingWatched]"
    using h(5) by (simp del: Watch_again.simps)
  have s: "fst (StopWatching None cfg1 w1) = Panics NilPointerDereference"
    using h(6) by simp
  from i h(1,2,3,4) e a s show ?thesis by auto
qed

section \<open>The library model on the documents of the tests\<close>

lemma unmarshal_doc_id: "go_Unmarshal_map doc_id = Inr [''id'' \<mapsto> Some ''1'']"
proof -
  have v: "checkValid doc_id = None" by code_simp
  have m: "split_members 0 False False [] [] doc_id = [(quoted ''id'', ''1'')]" by code_simp
  have s: "skipSpace doc_id = CHR ''{'' # tl doc_id" by code_simp
  show ?thesis
    unfolding go_Unmarshal_map_def v m s
    by (simp add: quoted_def unquote_def dquote_def backslash_def)
qed

lemma unmarshal_doc_null: "go_Unmarshal_map doc_null = Inr [''id'' \<mapsto> None]"
proof -
  have v: "checkValid doc_null = None" by code_simp
  have m: "split_members 0 False False [] [] doc_null = [(quoted ''id'', ''null'')]" by code_simp
  have s: "skipSpace doc_null = CHR ''{'' # tl doc_null" by code_simp
  show ?thesis
    unfolding go_Unmarshal_map_def v m s
    by (simp add: quoted_def unquote_def dquote_def backslash_def)
qed

lemma unmarshal_doc_birthday_null:
  "go_Unmarshal_map doc_birthday_null = Inr [''birthday'' \<mapsto> None]"
proof -
  have v: "checkValid doc_birthday_null = None" by code_simp
  have m: "split_members 0 False False [] [] doc_birthday_null = [(quoted ''birthday'', ''null'')]"
    by code_simp
  have s: "skipSpace doc_birthday_null = CHR ''{'' # tl doc_birthday_null" by code_simp
  show ?thesis
    unfolding go_Unmarshal_map_def v m s
    by (simp add: quoted_def unquote_def dquote_def backslash_def)
qed

lemma valid_doc_address: "checkValid doc_address = None"
  by code_simp

lemma skipSpace_doc_address: "skipSpace doc_address = CHR ''{'' # tl doc_address"
  by code_simp

lemma unmarshal_doc_address: "go_Unmarshal_map doc_address = Inr address"
proof -
  have m: "split_members 0 False False [] [] doc_address
             = [(quoted ''city'', quoted ''Moscow''), (quoted ''street'', quoted ''Lenina str.'')]"
    by code_simp
  show ?thesis
    unfolding go_Unmarshal_map_def valid_doc_address m skipSpace_doc_address
    by (simp add: address_def quoted_def unquote_def dquote_def backslash_def)
qed

lemma valid_doc_person: "checkValid doc_person = None"
  by code_simp

lemma skipSpace_doc_person: "skipSpace doc_person = CHR ''{'' # tl doc_person"
  by code_simp

lemma unmarshal_doc_person: "go_Unmarshal_map doc_person = Inr person"
proof -
  have m: "split_members 0 False False [] [] doc_person
             = [(quoted ''id'', ''1''), (quoted ''name'', quoted ''qwerty''),
                (quoted ''birthday'', quoted ''12.09.2018''), (quoted ''address'', doc_address)]"
    by code_simp
  have n: "doc_address \<noteq> ''null''" by (simp add: doc_address_def)
  show ?thesis
    unfolding go_Unmarshal_map_def valid_doc_person m skipSpace_doc_person
    by (simp add: n person_def quoted_def unquote_def dquote_def backslash_def)
qed

lemma valid_doc_array: "checkValid doc_array = None"
  by code_simp

lemma skipSpace_doc_array: "skipSpace doc_array = CHR ''['' # tl doc_array"
  by code_simp

lemma invalid_doc_unquoted: "checkValid doc_unquoted = Some (SyntaxError 3)"
  by code_simp

lemma unmarshal_doc_unquoted: "go_Unmarshal_map doc_unquoted = Inl (SyntaxError 3)"
  unfolding go_Unmarshal_map_def invalid_doc_unquoted by simp

lemma unmarshal_birthday: "go_Unmarshal_string (quoted ''12.09.2018'') = Inr ''12.09.2018''"
  by code_simp

lemma unmarshal_name: "go_Unmarshal_string (quoted ''qwerty'') = Inr ''qwerty''"
  by code_simp

lemma unmarshal_int_1: "go_Unmarshal_int ''1'' = Inr 1"
  by code_simp

lemma parse_birthday:
  "go_time_Parse ''2.1.2006'' ''12.09.2018'' = Inr \<lparr>Year = 2018, Month = 9, Day = 12\<rparr>"
  by code_simp

lemma Load_doc_person:
  "Load golib (Inr doc_person) ''config.json'' = Inr (new_handle person ''config.json'')"
  by (simp add: Load_def golib_def unmarshal_doc_person new_handle_def zero_Config_def)

lemma scan_SyntaxError: "scan st ps n data = Some err \<Longrightarrow> \<exists>k. err = SyntaxError k"
  by (induction data arbitrary: st ps n) (auto split: if_splits option.splits)

section \<open>The date layout\<close>

lemma isDigit_not_dot: "isDigit ch \<Longrightarrow> ch \<noteq> CHR ''.''"
  by (auto simp add: isDigit_def)

lemma digits_no_dot: "list_all isDigit ds \<Longrightarrow> CHR ''.'' \<notin> set ds"
  by (induction ds) (auto dest: isDigit_not_dot)

lemma fields_first: "sep \<notin> set a \<Longrightarrow> fields sep (a @ sep # b) = a # fields sep b"
  by (induction a) auto

lemma fields_last: "sep \<notin> set a \<Longrightarrow> fields sep a = [a]"
  by (induction a) auto

lemma getnum_digits:
  "getnum s = Some (n, r) \<Longrightarrow>
   \<exists>ds. s = ds @ r \<and> list_all isDigit ds \<and> (length ds = 1 \<or> length ds = 2) \<and> n = atoi ds"
proof (cases s)
  case Nil
  then show "getnum s = Some (n, r) \<Longrightarrow> ?thesis" by (simp add: getnum_def)
next
  case (Cons a t)
  assume g: "getnum s = Some (n, r)"
  show ?thesis
  proof (cases t)
    case Nil
    with Cons g have "s = [a] @ r \<and> list_all isDigit [a] \<and> n = atoi [a]"
      by (auto simp add: getnum_def atoi_def digit_def split: if_splits)
    moreover have "length [a] = 1" by simp
    ultimately show ?thesis by blast
  next
    case t: (Cons b u)
    show ?thesis
    proof (cases "isDigit b")
      case True
      with Cons t g have "s = [a, b] @ r \<and> list_all isDigit [a, b] \<and> n = atoi [a, b]"
        by (auto simp add: getnum_def atoi_def digit_def split: if_splits)
      moreover have "length [a, b] = 2" by simp
      ultimately show ?thesis by blast
    next
      case False
      with Cons t g have "s = [a] @ r \<and> list_all isDigit [a] \<and> n = atoi [a]"
        by (auto simp add: getnum_def atoi_def digit_def split: if_splits)
      moreover have "length [a] = 1" by simp
      ultimately show ?thesis by blast
    qed
  qed
qed

lemma chunks_2_1_2006:
  "nextStdChunk ''2.1.2006''
     = [StdDay, Literal (CHR ''.''), StdNumMonth, Literal (CHR ''.''), StdLongYear]"
  by simp

lemma parse_ParseError: "parse layout val y m d = Inl err \<Longrightarrow> \<exists>msg. err = ParseError msg"
  by (induction layout val y m d rule: parse.induct)
     (auto split: if_splits list.splits option.splits)

lemma go_time_Parse_ParseError:
  "go_time_Parse layout val = Inl err \<Longrightarrow> \<exists>msg. err = ParseError msg"
  using parse_ParseError
  by (fastforce simp add: go_time_Parse_def Let_def split: sum.splits if_splits prod.splits)

lemma go_time_Parse_layout:
  assumes "go_time_Parse ''2.1.2006'' s = Inr t"
  shows "D_M_YYYY s \<and> (\<exists>dd mm yyyy. fields (CHR ''.'') s = [dd, mm, yyyy]
            \<and> Day t = atoi dd \<and> Month t = atoi mm \<and> Year t = atoi yyyy)"
proof -
  from assms obtain y m d where
    p: "parse [StdDay, Literal (CHR ''.''), StdNumMonth, Literal (CHR ''.''), StdLongYear]
          s 0 (- 1) (- 1) = Inr (y, m, d)"
    and t: "t = \<lparr>Year = y, Month = (if m < 0 then 1 else m), Day = (if d < 0 then 1 else d)\<rparr>"
    unfolding go_time_Parse_def chunks_2_1_2006
    by (auto simp add: Let_def split: sum.splits if_splits)
  from p obtain day r1 where g1: "getnum s = Some (day, r1)"
    and p1: "parse [Literal (CHR ''.''), StdNumMonth, Literal (CHR ''.''), StdLongYear]
               r1 0 (- 1) day = Inr (y, m, d)"
    by (auto split: option.splits)
  from p1 obtain r2 where r1: "r1 = CHR ''.'' # r2"
    and p2: "parse [StdNumMonth, Literal (CHR ''.''), StdLongYear] r2 0 (- 1) day = Inr (y, m, d)"
    by (cases r1) (auto split: if_splits)
  from p2 obtain month r3 where g2: "getnum r2 = Some (month, r3)"
    and mr: "0 < month" "month \<le> 12"
    and p3: "parse [Literal (CHR ''.''), StdLongYear] r3 0 month day = Inr (y, m, d)"
    by (auto split: option.splits if_splits)
  from p3 obtain r4 where r3: "r3 = CHR ''.'' # r4"
    and p4: "parse [StdLongYear] r4 0 month day = Inr (y, m, d)"
    by (cases r3) (auto split: if_splits)
  from p4 have y4: "4 \<le> length r4" "list_all isDigit (take 4 r4)" "drop 4 r4 = []"
    and res: "y = atoi (take 4 r4)" "m = month" "d = day"
    by (auto split: if_splits)
  from y4 have l4: "length r4 = 4" by simp
  then have tk: "take 4 r4 = r4" by simp
  from getnum_digits [OF g1] obtain dd where
    dd: "s = dd @ r1" "list_all isDigit dd" "length dd = 1 \<or> length dd = 2" "day = atoi dd"
    by blast
  from getnum_digits [OF g2] obtain mm where
    mm: "r2 = mm @ r3" "list_all isDigit mm" "length mm = 1 \<or> length mm = 2" "month = atoi mm"
    by blast
  have s: "s = dd @ CHR ''.'' # mm @ CHR ''.'' # r4"
    using dd(1) r1 mm(1) r3 by simp
  have f: "fields (CHR ''.'') s = [dd, mm, r4]"
    unfolding s using digits_no_dot [OF dd(2)] digits_no_dot [OF mm(2)] y4(2) tk
    by (simp add: fields_first fields_last digits_no_dot)
  have dpos: "\<not> day < 0"
    using dd(2,3,4) by (cases dd; cases "tl dd") (auto simp add: atoi_def)
  have "D_M_YYYY s"
    unfolding D_M_YYYY_def f using dd mm y4 tk l4 by simp
  moreover have "Day t = atoi dd \<and> Month t = atoi mm \<and> Year t = atoi r4"
    using t res dd(4) mm(4) mr dpos tk by simp
  ultimately show ?thesis using f by blast
qed

section \<open>The accessors run alone\<close>

lemma exec_getString:
  assumes "\<not> writer (mut cfg)"
  shows "exec (getString L key) cfg =
     (case c cfg key of
        None \<Rightarrow>
          Some (Returns (Inl (Errorf (''key '' @ key @ '' was not found in the config''))), cfg)
      | Some None \<Rightarrow>
          Some (Panics NilPointerDereference,
                cfg\<lparr>mut := (mut cfg)\<lparr>readers := Suc (readers (mut cfg))\<rparr>\<rparr>)
      | Some (Some raw) \<Rightarrow> Some (Returns (json_Unmarshal_string L raw), cfg))"
  using assms
  by (simp add: getString_def deref_def split: sum.splits option.splits)

lemma exec_getInt:
  assumes "\<not> writer (mut cfg)"
  shows "exec (getInt L key) cfg =
     (case c cfg key of
        None \<Rightarrow>
          Some (Returns (Inl (Errorf (''key '' @ key @ '' was not found in the config''))), cfg)
      | Some None \<Rightarrow>
          Some (Panics NilPointerDereference,
                cfg\<lparr>mut := (mut cfg)\<lparr>readers := Suc (readers (mut cfg))\<rparr>\<rparr>)
      | Some (Some raw) \<Rightarrow> Some (Returns (json_Unmarshal_int L raw), cfg))"
  using assms
  by (simp add: getInt_def deref_def split: sum.splits option.splits)

text \<open>
  In \<open>src/json/json.go\<close> the defaulting accessor returns the default for an absent key and for
  a value that does not decode, and the decoded value otherwise; it panics, with the read
  lock held, on a key bound to a nil pointer.
\<close>

lemma exec_GetInt:
  assumes "\<not> writer (mut cfg)"
  shows "exec (GetInt L key defaultVal) cfg =
     (case c cfg key of
        None \<Rightarrow> Some (Returns defaultVal, cfg)
      | Some None \<Rightarrow>
          Some (Panics NilPointerDereference,
                cfg\<lparr>mut := (mut cfg)\<lparr>readers := Suc (readers (mut cfg))\<rparr>\<rparr>)
      | Some (Some raw) \<Rightarrow>
          Some (Returns (case json_Unmarshal_int L raw of Inl err \<Rightarrow> defaultVal | Inr v \<Rightarrow> v), cfg))"
  using assms
  by (simp add: GetInt_def getInt_def deref_def split: sum.splits option.splits)

lemma exec_GetString:
  assumes "\<not> writer (mut cfg)"
  shows "exec (GetString L key defaultVal) cfg =
     (case c cfg key of
        None \<Rightarrow> Some (Returns defaultVal, cfg)
      | Some None \<Rightarrow>
          Some (Panics NilPointerDereference,
                cfg\<lparr>mut := (mut cfg)\<lparr>readers := Suc (readers (mut cfg))\<rparr>\<rparr>)
      | Some (Some raw) \<Rightarrow>
          Some (Returns (case json_Unmarshal_string L raw of Inl err \<Rightarrow> defaultVal | Inr v \<Rightarrow> v), cfg))"
  using assms
  by (simp add: GetString_def getString_def deref_def split: sum.splits option.splits)

lemma GetInt_missing_in_json_package:
  "\<exists>cfg. New golib doc_id = Inr cfg
      \<and> exec (GetInt golib ''missing'' 42) cfg = Some (Returns 42, cfg)
      \<and> exec (GetInt golib ''id'' 42) cfg = Some (Returns 1, cfg)
      \<and> exec (getInt golib ''missing'') cfg
           = Some (Returns (Inl (Errorf ''key missing was not found in the config'')), cfg)"
  by (simp add: New_def newConf_def golib_def unmarshal_doc_id unmarshal_int_1 exec_GetInt exec_getInt
      zero_Config_def)

lemma GetInt_null_in_json_package:
  "\<exists>cfg. New golib doc_null = Inr cfg
      \<and> map_option fst (exec (GetInt golib ''id'' 42) cfg) = Some (Panics NilPointerDereference)"
  by (simp add: New_def newConf_def golib_def unmarshal_doc_null exec_GetInt zero_Config_def)

lemma exec_Section:
  "exec (Section L key) cfg =
     (case c cfg key of
        None \<Rightarrow> Some (Returns (Inl (Errorf (''section '' @ key @ '' not present in config''))), cfg)
      | Some None \<Rightarrow> Some (Panics NilPointerDereference, cfg)
      | Some (Some raw) \<Rightarrow> Some (Returns (newConf L raw), cfg))"
  by (simp add: Section_def newConf_def deref_def split: sum.splits option.splits)




section \<open>The listener\<close>

lemma listen_exit_only_on_close:
  "listen L s x = Some s' \<Longrightarrow> at s' = Exited \<Longrightarrow> x = EventsClosed"
  by (cases x; cases "at s") (auto split: if_splits sum.splits option.splits)

lemma listen_all_exit_only_on_close:
  "listen_all L s xs = Some s' \<Longrightarrow> at s' = Exited \<Longrightarrow> at s \<noteq> Exited \<Longrightarrow> EventsClosed \<in> set xs"
proof (induction xs arbitrary: s)
  case Nil
  then show ?case by simp
next
  case (Cons x xs)
  from Cons.prems(1) obtain s1 where s1: "listen L s x = Some s1" "listen_all L s1 xs = Some s'"
    by (auto split: option.splits)
  show ?case
  proof (cases "at s1 = Exited")
    case True
    with s1(1) have "x = EventsClosed" by (rule listen_exit_only_on_close)
    then show ?thesis by simp
  next
    case False
    from Cons.IH [OF s1(2) Cons.prems(2) False] show ?thesis by simp
  qed
qed


lemma Write_is_Write: "Write AND Write = Write"
  by simp

section \<open>The claims about parsing and the accessors\<close>

text \<open>
  C1.  The defaulting accessor returns the default when the key is absent.  The package of
  \<open>src/config/json/json.go\<close> does not: parsing the document \<open>{"id": 1}\<close> gives a map without
  the key \<open>missing\<close>, and \<open>GetInt("missing", 42)\<close> and \<open>GetString("missing", "none")\<close> on it
  dereference the nil pointer that the map lookup yields.
\<close>

theorem config_Get_missing_key_panics:
  "config_New golib doc_id = Inr \<lparr>config_c = [''id'' \<mapsto> Some ''1'']\<rparr>
   \<and> config_GetInt golib \<lparr>config_c = [''id'' \<mapsto> Some ''1'']\<rparr> ''missing'' 42
        = Panics NilPointerDereference
   \<and> config_GetString golib \<lparr>config_c = [''id'' \<mapsto> Some ''1'']\<rparr> ''missing'' ''none''
        = Panics NilPointerDereference"
  by (simp add: config_New_def config_new_def golib_def unmarshal_doc_id config_GetInt_def
      config_getInt_def config_GetString_def config_getString_def deref_def)

text \<open>
  C2.  \<open>Section\<close> on an absent key fails with an error that names the key.  The package of
  \<open>src/config/json/json.go\<close> does not: on the map of the document \<open>{"id": 1}\<close>,
  \<open>Section("address")\<close> dereferences the nil pointer that the map lookup yields.
\<close>

theorem config_Section_missing_key_panics:
  "config_New golib doc_id = Inr \<lparr>config_c = [''id'' \<mapsto> Some ''1'']\<rparr>
   \<and> config_Section golib \<lparr>config_c = [''id'' \<mapsto> Some ''1'']\<rparr> ''address''
        = Panics NilPointerDereference"
  by (simp add: config_New_def config_new_def golib_def unmarshal_doc_id config_Section_def
      deref_def)

text \<open>
  C9.  Round trip in \<open>src/json/json.go\<close>: for a key bound to raw bytes, \<open>SectionAsJSON\<close> returns
  a text, and \<open>Section\<close> returns exactly what \<open>newConf\<close> returns on that text: the same handle
  when the value is an object, the same error when it is not.  This holds for every
  decoder.
\<close>

theorem SectionAsJSON_then_newConf:
  assumes "\<not> writer (mut cfg)" and "c cfg key = Some (Some raw)"
  shows "\<exists>section_text. exec (SectionAsJSON key) cfg = Some (Returns (Inr section_text), cfg)
           \<and> exec (Section L key) cfg = Some (Returns (newConf L section_text), cfg)"
  using assms
  by (simp add: SectionAsJSON_def Section_def newConf_def deref_def split: sum.splits)

theorem SectionAsJSON_then_newConf_witness:
  "\<not> writer (mut (new_handle person ''config.json''))
   \<and> c (new_handle person ''config.json'') ''address'' = Some (Some doc_address)
   \<and> exec (SectionAsJSON ''address'') (new_handle person ''config.json'')
        = Some (Returns (Inr doc_address), new_handle person ''config.json'')
   \<and> exec (Section golib ''address'') (new_handle person ''config.json'')
        = Some (Returns (newConf golib doc_address), new_handle person ''config.json'')
   \<and> newConf golib doc_address = Inr (zero_Config\<lparr>c := address\<rparr>)"
proof -
  have w: "\<not> writer (mut (new_handle person ''config.json''))"
    by (simp add: new_handle_def)
  have k: "c (new_handle person ''config.json'') ''address'' = Some (Some doc_address)"
    by (simp add: new_handle_def person_def)
  from SectionAsJSON_then_newConf [OF w k, of golib] obtain section_text where
    t: "exec (SectionAsJSON ''address'') (new_handle person ''config.json'')
          = Some (Returns (Inr section_text), new_handle person ''config.json'')"
       "exec (Section golib ''address'') (new_handle person ''config.json'')
          = Some (Returns (newConf golib section_text), new_handle person ''config.json'')"
    by blast
  have "exec (SectionAsJSON ''address'') (new_handle person ''config.json'')
          = Some (Returns (Inr doc_address), new_handle person ''config.json'')"
    using w k by (simp add: SectionAsJSON_def)
  with t(1) have "section_text = doc_address" by simp
  moreover have "newConf golib doc_address = Inr (zero_Config\<lparr>c := address\<rparr>)"
    by (simp add: newConf_def golib_def unmarshal_doc_address)
  ultimately show ?thesis using w k t by simp
qed

text \<open>
  C7.  With the library model, \<open>newConf\<close> accepts every text that the scanner of
  \<open>encoding/json\<close> finds valid and whose first byte after white space opens an object; it
  rejects every valid text that opens an array with the type error of \<open>json.Unmarshal\<close>; and
  it rejects every text the scanner finds invalid with the scanner's syntax error, which is
  a different error value.
\<close>

theorem newConf_top_level:
  "(\<forall>rest. checkValid data = None \<and> skipSpace data = CHR ''{'' # rest
        \<longrightarrow> (\<exists>cfg. newConf golib data = Inr cfg))
   \<and> (\<forall>rest. checkValid data = None \<and> skipSpace data = CHR ''['' # rest
        \<longrightarrow> newConf golib data = Inl (UnmarshalTypeError ''array''))
   \<and> (\<forall>err. checkValid data = Some err
        \<longrightarrow> newConf golib data = Inl err \<and> (\<exists>k. err = SyntaxError k))
   \<and> (\<forall>k v. SyntaxError k \<noteq> UnmarshalTypeError v)"
proof -
  have obj: "\<forall>rest. checkValid data = None \<and> skipSpace data = CHR ''{'' # rest
        \<longrightarrow> (\<exists>cfg. newConf golib data = Inr cfg)"
    by (simp add: newConf_def golib_def go_Unmarshal_map_def)
  have arr: "\<forall>rest. checkValid data = None \<and> skipSpace data = CHR ''['' # rest
        \<longrightarrow> newConf golib data = Inl (UnmarshalTypeError ''array'')"
    by (simp add: newConf_def golib_def go_Unmarshal_map_def)
  have syn: "\<forall>err. checkValid data = Some err
        \<longrightarrow> newConf golib data = Inl err \<and> (\<exists>k. err = SyntaxError k)"
    using scan_SyntaxError
    by (auto simp add: newConf_def golib_def go_Unmarshal_map_def checkValid_def)
  from obj arr syn show ?thesis by simp
qed

theorem newConf_top_level_witness:
  "checkValid doc_person = None \<and> skipSpace doc_person = CHR ''{'' # tl doc_person
   \<and> newConf golib doc_person = Inr (zero_Config\<lparr>c := person\<rparr>)
   \<and> checkValid doc_array = None \<and> skipSpace doc_array = CHR ''['' # tl doc_array
   \<and> newConf golib doc_array = Inl (UnmarshalTypeError ''array'')
   \<and> checkValid doc_unquoted = Some (SyntaxError 3)
   \<and> newConf golib doc_unquoted = Inl (SyntaxError 3)"
proof -
  have person: "newConf golib doc_person = Inr (zero_Config\<lparr>c := person\<rparr>)"
    using newConf_top_level [of doc_person] valid_doc_person skipSpace_doc_person
    by (simp add: newConf_def golib_def unmarshal_doc_person)
  have array: "newConf golib doc_array = Inl (UnmarshalTypeError ''array'')"
    using newConf_top_level [of doc_array] valid_doc_array skipSpace_doc_array
    by blast
  have unquoted: "newConf golib doc_unquoted = Inl (SyntaxError 3)"
    using newConf_top_level [of doc_unquoted] invalid_doc_unquoted
    by blast
  from person array unquoted valid_doc_person skipSpace_doc_person valid_doc_array
    skipSpace_doc_array invalid_doc_unquoted
  show ?thesis by simp
qed

text \<open>
  With the library model, \<open>getTime\<close> on a key bound to raw bytes decodes the bytes as a
  string and parses the string with the layout \<open>2.1.2006\<close>, and returns the error of
  whichever step fails.  A string not made of a day and a month of one or two digits and a
  year of four digits, separated by dots, gives a \<open>*time.ParseError\<close>; the raw value
  \<open>"12.09.2018"\<close> gives year 2018, month 9, day 12.
\<close>

lemma getTime_layout:
  assumes "\<not> writer (mut cfg)" and "c cfg key = Some (Some raw)"
  shows "exec (getTime golib key) cfg
           = Some (Returns (case go_Unmarshal_string raw of
                              Inl err \<Rightarrow> Inl err
                            | Inr valueStr \<Rightarrow> go_time_Parse ''2.1.2006'' valueStr), cfg)
       \<and> (\<forall>valueStr. go_Unmarshal_string raw = Inr valueStr \<and> \<not> D_M_YYYY valueStr
             \<longrightarrow> (\<exists>msg. exec (getTime golib key) cfg = Some (Returns (Inl (ParseError msg)), cfg)))
       \<and> (\<forall>valueStr t. go_Unmarshal_string raw = Inr valueStr
               \<and> exec (getTime golib key) cfg = Some (Returns (Inr t), cfg)
             \<longrightarrow> (\<exists>dd mm yyyy. fields (CHR ''.'') valueStr = [dd, mm, yyyy]
                    \<and> Day t = atoi dd \<and> Month t = atoi mm \<and> Year t = atoi yyyy))
       \<and> (raw = quoted ''12.09.2018''
             \<longrightarrow> exec (getTime golib key) cfg
                   = Some (Returns (Inr \<lparr>Year = 2018, Month = 9, Day = 12\<rparr>), cfg))"
proof -
  have run: "exec (getTime golib key) cfg
           = Some (Returns (case go_Unmarshal_string raw of
                              Inl err \<Rightarrow> Inl err
                            | Inr valueStr \<Rightarrow> go_time_Parse ''2.1.2006'' valueStr), cfg)"
    using assms
    by (simp add: getTime_def getString_def deref_def golib_def split: sum.splits)
  have bad: "\<exists>msg. exec (getTime golib key) cfg = Some (Returns (Inl (ParseError msg)), cfg)"
    if "go_Unmarshal_string raw = Inr valueStr" and "\<not> D_M_YYYY valueStr" for valueStr
  proof (cases "go_time_Parse ''2.1.2006'' valueStr")
    case (Inl err)
    with go_time_Parse_ParseError obtain msg where "err = ParseError msg" by blast
    with Inl run that(1) show ?thesis by simp
  next
    case (Inr t)
    with go_time_Parse_layout that(2) show ?thesis by blast
  qed
  have good: "\<exists>dd mm yyyy. fields (CHR ''.'') valueStr = [dd, mm, yyyy]
                    \<and> Day t = atoi dd \<and> Month t = atoi mm \<and> Year t = atoi yyyy"
    if "go_Unmarshal_string raw = Inr valueStr"
      and "exec (getTime golib key) cfg = Some (Returns (Inr t), cfg)" for valueStr t
  proof -
    from run that have "go_time_Parse ''2.1.2006'' valueStr = Inr t" by simp
    with go_time_Parse_layout show ?thesis by blast
  qed
  have birthday: "exec (getTime golib key) cfg
                   = Some (Returns (Inr \<lparr>Year = 2018, Month = 9, Day = 12\<rparr>), cfg)"
    if "raw = quoted ''12.09.2018''"
    using run that by (simp add: unmarshal_birthday parse_birthday)
  from run bad good birthday show ?thesis by blast
qed

lemma getTime_layout_person:
  "\<not> writer (mut (new_handle person ''config.json''))
   \<and> c (new_handle person ''config.json'') ''birthday'' = Some (Some (quoted ''12.09.2018''))
   \<and> exec (getTime golib ''birthday'') (new_handle person ''config.json'')
        = Some (Returns (Inr \<lparr>Year = 2018, Month = 9, Day = 12\<rparr>), new_handle person ''config.json'')
   \<and> c (new_handle person ''config.json'') ''name'' = Some (Some (quoted ''qwerty''))
   \<and> go_Unmarshal_string (quoted ''qwerty'') = Inr ''qwerty'' \<and> \<not> D_M_YYYY ''qwerty''
   \<and> (\<exists>msg. exec (getTime golib ''name'') (new_handle person ''config.json'')
          = Some (Returns (Inl (ParseError msg)), new_handle person ''config.json''))"
proof -
  have w: "\<not> writer (mut (new_handle person ''config.json''))"
    by (simp add: new_handle_def)
  have b: "c (new_handle person ''config.json'') ''birthday'' = Some (Some (quoted ''12.09.2018''))"
    by (simp add: new_handle_def person_def)
  have n: "c (new_handle person ''config.json'') ''name'' = Some (Some (quoted ''qwerty''))"
    by (simp add: new_handle_def person_def)
  have l: "\<not> D_M_YYYY ''qwerty''"
    by (simp add: D_M_YYYY_def)
  from getTime_layout [OF w b] have
    "exec (getTime golib ''birthday'') (new_handle person ''config.json'')
        = Some (Returns (Inr \<lparr>Year = 2018, Month = 9, Day = 12\<rparr>), new_handle person ''config.json'')"
    by blast
  moreover from getTime_layout [OF w n] unmarshal_name l have
    "\<exists>msg. exec (getTime golib ''name'') (new_handle person ''config.json'')
          = Some (Returns (Inl (ParseError msg)), new_handle person ''config.json'')"
    by blast
  ultimately show ?thesis using w b n l unmarshal_name by blast
qed

text \<open>
  C8.  A value that is not in the layout fails with an error.  For the member
  \<open>"birthday": null\<close> it does not: the map holds the key with a nil pointer, \<open>getString\<close>
  passes its test of the key and dereferences the pointer, and \<open>getTime\<close>, \<open>GetTime\<close> with
  it, panics with the read lock still held.
\<close>

theorem getTime_null_panics:
  "New golib doc_birthday_null = Inr (zero_Config\<lparr>c := [''birthday'' \<mapsto> None]\<rparr>)
   \<and> exec (getTime golib ''birthday'') (zero_Config\<lparr>c := [''birthday'' \<mapsto> None]\<rparr>)
        = Some (Panics NilPointerDereference,
                zero_Config\<lparr>c := [''birthday'' \<mapsto> None], mut := \<lparr>readers = 1, writer = False\<rparr>\<rparr>)
   \<and> exec (GetTime golib ''birthday'' \<lparr>Year = 1970, Month = 1, Day = 1\<rparr>)
          (zero_Config\<lparr>c := [''birthday'' \<mapsto> None]\<rparr>)
        = Some (Panics NilPointerDereference,
                zero_Config\<lparr>c := [''birthday'' \<mapsto> None], mut := \<lparr>readers = 1, writer = False\<rparr>\<rparr>)"
  by (simp add: New_def newConf_def golib_def unmarshal_doc_birthday_null GetTime_def getTime_def
      getString_def deref_def zero_Config_def)

section \<open>The claims about the listener\<close>

text \<open>
  C4.  When the listener, waiting in its \<open>select\<close>, receives a write event and reading the
  file fails or parsing the bytes read fails, the handle with its document is unchanged, no
  notification is sent, and the listener is back in its \<open>select\<close>.  Whatever the listener
  receives, it returns only after it has read the closed \<open>Events\<close> channel.
\<close>

theorem failed_reload_keeps_document:
  assumes "at s = AtSelect" and "Op event AND Write = Write"
    and "readFile = Inl err \<or> (\<exists>data. readFile = Inr data \<and> json_Unmarshal_map L data = Inl err)"
  shows "(\<exists>s'. listen L s (RecvEvent event readFile) = Some s'
            \<and> handle s' = handle s \<and> at s' = AtSelect \<and> sent s' = sent s)
       \<and> (\<forall>xs s'. listen_all L s xs = Some s' \<and> at s' = Exited \<longrightarrow> EventsClosed \<in> set xs)"
proof -
  have one: "\<exists>s'. listen L s (RecvEvent event readFile) = Some s'
            \<and> handle s' = handle s \<and> at s' = AtSelect \<and> sent s' = sent s"
    using assms by auto
  have "at s \<noteq> Exited" using assms(1) by simp
  then have all: "\<forall>xs s'. listen_all L s xs = Some s' \<and> at s' = Exited \<longrightarrow> EventsClosed \<in> set xs"
    using listen_all_exit_only_on_close by blast
  from one all show ?thesis by blast
qed

theorem failed_reload_keeps_document_witness:
  "at (started (new_handle person ''config.json'')) = AtSelect
   \<and> Op \<lparr>Name = ''config.json'', Op = Write\<rparr> AND Write = Write
   \<and> json_Unmarshal_map golib doc_unquoted = Inl (SyntaxError 3)
   \<and> listen_all golib (started (new_handle person ''config.json''))
       [RecvEvent \<lparr>Name = ''config.json'', Op = Write\<rparr> (Inl (PathError ''open config.json'')),
        RecvEvent \<lparr>Name = ''config.json'', Op = Write\<rparr> (Inr doc_unquoted)]
     = Some ((started (new_handle person ''config.json''))
              \<lparr>logged := [ErrorReading (PathError ''open config.json''),
                          ErrorUnmarshalling (SyntaxError 3)]\<rparr>)
   \<and> (\<exists>s'. listen golib (started (new_handle person ''config.json''))
              (RecvEvent \<lparr>Name = ''config.json'', Op = Write\<rparr> (Inr doc_unquoted)) = Some s'
          \<and> handle s' = new_handle person ''config.json'' \<and> at s' = AtSelect \<and> sent s' = 0)"
proof -
  have a: "at (started (new_handle person ''config.json'')) = AtSelect"
    by (simp add: started_def)
  have o: "Op \<lparr>Name = ''config.json'', Op = Write\<rparr> AND Write = Write"
    by simp
  have u: "json_Unmarshal_map golib doc_unquoted = Inl (SyntaxError 3)"
    by (simp add: golib_def unmarshal_doc_unquoted)
  have r: "Inr doc_unquoted = Inl (SyntaxError 3)
            \<or> (\<exists>data. Inr doc_unquoted = Inr data \<and> json_Unmarshal_map golib data = Inl (SyntaxError 3))"
    using u by simp
  have h: "handle (started (new_handle person ''config.json'')) = new_handle person ''config.json''"
      "sent (started (new_handle person ''config.json'')) = 0"
    by (simp_all add: started_def)
  from failed_reload_keeps_document [OF a o r] h have
    one: "\<exists>s'. listen golib (started (new_handle person ''config.json''))
              (RecvEvent \<lparr>Name = ''config.json'', Op = Write\<rparr> (Inr doc_unquoted)) = Some s'
          \<and> handle s' = new_handle person ''config.json'' \<and> at s' = AtSelect \<and> sent s' = 0"
    by simp
  have two: "listen_all golib (started (new_handle person ''config.json''))
       [RecvEvent \<lparr>Name = ''config.json'', Op = Write\<rparr> (Inl (PathError ''open config.json'')),
        RecvEvent \<lparr>Name = ''config.json'', Op = Write\<rparr> (Inr doc_unquoted)]
     = Some ((started (new_handle person ''config.json''))
              \<lparr>logged := [ErrorReading (PathError ''open config.json''),
                          ErrorUnmarshalling (SyntaxError 3)]\<rparr>)"
    using u by (simp add: started_def)
  from a o u one two show ?thesis by blast
qed




section \<open>The claim about the lock\<close>

text \<open>
  C6.  Every accessor reads the document under the read lock, so that no read sees a mix of
  the old and the new document.  \<open>Section\<close> does not: it takes no lock and reads \<open>c.c[key]\<close>
  twice.  Under the schedule below the reload, which replaces a document that has the key
  \<open>address\<close> by one that has not, runs between the two reads: the first read finds the key,
  the second yields nil, and \<open>Section\<close> panics, although alone it returns the section on the
  old document and an error on the new one.  \<open>UnmarshalSection\<close> does the same.
  \<open>SectionAsJSON\<close>, which takes the read lock, makes the reload wait under the same schedule
  and returns the old section.
\<close>

theorem Section_reads_without_lock:
  "returned (fst (interleave [True, False, False, False, True, True, True, False, False, False]
       (Section golib ''address'') (swap [''id'' \<mapsto> Some ''1''])
       (new_handle person ''config.json'')))
     = Some (Panics NilPointerDereference)
   \<and> map_option fst (exec (Section golib ''address'') (new_handle person ''config.json''))
     = Some (Returns (Inr (zero_Config\<lparr>c := address\<rparr>)))
   \<and> map_option fst (exec (Section golib ''address'') (new_handle [''id'' \<mapsto> Some ''1''] ''config.json''))
     = Some (Returns (Inl (Errorf ''section address not present in config'')))
   \<and> returned (fst (interleave [True, False, False, False, True, True, True, False, False, False]
       (UnmarshalSection go_Unmarshal_map ''address'') (swap [''id'' \<mapsto> Some ''1''])
       (new_handle person ''config.json'')))
     = Some (Panics NilPointerDereference)
   \<and> returned (fst (interleave [True, False, False, False, True, True, True, False, False, False]
       (SectionAsJSON ''address'') (swap [''id'' \<mapsto> Some ''1''])
       (new_handle person ''config.json'')))
     = Some (Returns (Inr doc_address))"
  by (simp add: Section_def UnmarshalSection_def SectionAsJSON_def swap_def new_handle_def
      deref_def golib_def unmarshal_doc_address person_def)

end
